theory Spec2Isabelle
  imports Main
begin

section \<open>LDAP authentication backend (airflow/contrib/auth/backends/ldap_auth.py)\<close>

text \<open>
  The development embeds the bodies of \<open>get_ldap_connection\<close>, \<open>group_contains_user\<close>,
  \<open>groups_user\<close>, \<open>LdapUser.__init__\<close> and \<open>LdapUser.try_login\<close>.

  What the module takes from outside is a parameter of the model, the record \<open>env\<close>:
  the configuration (\<open>airflow.configuration.conf\<close>) is a partial map from (section, key)
  to the configured string, and the directory reached through the ldap3 library is given
  by three functions: whether \<open>Connection.bind()\<close> succeeds, the \<open>last_error\<close> text of a
  connection, and what a search leaves on the connection (its return value,
  \<open>conn.response\<close> and \<open>conn.entries\<close>). Library calls are taken to return; an
  exception is raised only where the Python of this module raises one.

  Every function returns a pair: the value or the exception raised (\<open>Inl\<close>), and the
  events it performed in order (log records, binds, searches, unbinds).

  The decorators \<open>cache.memoize\<close> (flask\_caching) and \<open>measure\<close> (which prints the
  elapsed wall-clock time) wrap these functions from outside; the definitions are the
  decorated bodies, that is, what runs when the memoizing layer holds no entry for the
  arguments.

  Strings are lists of 8-bit characters, read as the code points 0 to 255; \<open>lower\<close>
  is \<open>str.lower()\<close> on such strings, which works character by character: it adds 32
  to the letters A to Z and to the code points 0xC0 to 0xDE other than 0xD7, and leaves
  every other character alone.
\<close>

subsection \<open>Exceptions, log records and events\<close>

datatype error =
    AirflowConfigException string string
  | UnboundLocalError string
  | AuthenticationError string
  | LdapException string
  | IndexError
  | KeyError string
  | AttributeError string
  | LDAPCursorError string

datatype level = DEBUG | INFO | WARNING | ERROR

text \<open>One constructor per log call of the module, carrying the call's arguments.\<close>

datatype message =
    CannotBind string
  | UnableToFindGroup string string
  | CannotFindUser string
  | MissingAttribute string
  | ParsingError
  | MissingSuperuserSettings
  | MissingDataProfilerSettings
  | MissingLdapSettings
  | UnableToParseStructure
  | PasswordIncorrect string

datatype scope = LEVEL | SUBTREE

subsection \<open>Connections, searches and the environment\<close>

text \<open>
  A connection is what \<open>Connection(server, dn, password)\<close> was built from: the server's
  URI, the CA file of its \<open>Tls\<close> object, the \<open>get_info\<close> argument, and the bind DN and
  password.
\<close>

record connection =
  server_uri :: string
  ca_certs_file :: string
  get_info :: string
  conn_user :: string
  conn_password :: string

text \<open>
  The arguments of \<open>conn.search\<close>. \<open>None\<close> stands for a keyword the call leaves out.
\<close>

record request =
  search_base :: string
  search_filter :: string
  search_scope :: "scope option"
  req_attributes :: "string list option"

text \<open>
  An item of \<open>conn.response\<close> is a dictionary; the module reads its keys \<open>'dn'\<close> and
  \<open>'attributes'\<close>, either of which may be missing.
\<close>

record response_item =
  dn :: "string option"
  attributes :: "(string \<rightharpoonup> string list) option"

text \<open>
  An item of \<open>conn.entries\<close>: \<open>getattr(entry, name).values\<close> is the value list of the
  attribute, and \<open>getattr\<close> raises when the entry has no such attribute.
\<close>

type_synonym entry = "string \<rightharpoonup> string list"

record outcome =
  indicator :: bool
  response :: "response_item list"
  entries :: "entry list"

record env =
  conf :: "string \<times> string \<rightharpoonup> string"
  conn_bind :: "connection \<Rightarrow> bool"
  conn_last_error :: "connection \<Rightarrow> string"
  conn_search :: "connection \<Rightarrow> request \<Rightarrow> outcome"

datatype event =
    Log level message
  | SetConfigParameter string string
  | Bind connection
  | Search connection request
  | Unbind connection

type_synonym 'a result = "(error + 'a) \<times> event list"

definition ok :: "'a \<Rightarrow> 'a result" where
  "ok x = (Inr x, [])"

definition throw :: "error \<Rightarrow> 'a result" where
  "throw e = (Inl e, [])"

definition emit :: "event \<Rightarrow> unit result" where
  "emit ev = (Inr (), [ev])"

text \<open>Sequencing: an exception ends the run, the events of both parts are kept in order.\<close>

definition bnd :: "'a result \<Rightarrow> ('a \<Rightarrow> 'b result) \<Rightarrow> 'b result" where
  "bnd m f =
     (case m of
        (Inl e, evs) \<Rightarrow> (Inl e, evs)
      | (Inr x, evs) \<Rightarrow> (case f x of (r, evs') \<Rightarrow> (r, evs @ evs')))"

text \<open>\<open>conf.get(section, key)\<close> raises \<open>AirflowConfigException\<close> for a missing key.\<close>

definition conf_get :: "env \<Rightarrow> string \<Rightarrow> string \<Rightarrow> string result" where
  "conf_get e section key =
     (case conf e (section, key) of
        None \<Rightarrow> throw (AirflowConfigException section key)
      | Some v \<Rightarrow> ok v)"

definition has_option :: "env \<Rightarrow> string \<Rightarrow> string \<Rightarrow> bool" where
  "has_option e section key = (conf e (section, key) \<noteq> None)"

text \<open>
  A local variable that was assigned only inside a \<open>try\<close> whose \<open>except\<close> passes is
  unbound when the assignment raised; reading it raises \<open>UnboundLocalError\<close>.
\<close>

definition read_local :: "string \<Rightarrow> 'a option \<Rightarrow> 'a result" where
  "read_local name v =
     (case v of None \<Rightarrow> throw (UnboundLocalError name) | Some x \<Rightarrow> ok x)"

text \<open>\<open>xs[0]\<close> raises \<open>IndexError\<close> on the empty list.\<close>

definition first :: "'a list \<Rightarrow> 'a result" where
  "first xs = (case xs of [] \<Rightarrow> throw IndexError | x # _ \<Rightarrow> ok x)"

text \<open>\<open>d[key]\<close> raises \<open>KeyError\<close> for a missing key.\<close>

definition subscript :: "'a option \<Rightarrow> string \<Rightarrow> 'a result" where
  "subscript v key = (case v of None \<Rightarrow> throw (KeyError key) | Some x \<Rightarrow> ok x)"

subsection \<open>\<open>get_ldap_connection\<close>\<close>

definition get_ldap_connection :: "env \<Rightarrow> string \<Rightarrow> string \<Rightarrow> connection result" where
  "get_ldap_connection e dn' password =
     (let cacert = conf e (''ldap'', ''cacert'');
          ignore_malformed_schema = conf e (''ldap'', ''ignore_malformed_schema'')
      in
      bnd (read_local ''ignore_malformed_schema'' ignore_malformed_schema) (\<lambda>ims.
      bnd (if ims \<noteq> [] then emit (SetConfigParameter ''IGNORE_MALFORMED_SCHEMA'' ims)
           else ok ()) (\<lambda>_.
      bnd (read_local ''cacert'' cacert) (\<lambda>ca.
      bnd (conf_get e ''ldap'' ''search_scope'') (\<lambda>sc.
      bnd (conf_get e ''ldap'' ''uri'') (\<lambda>uri.
      let conn = \<lparr>server_uri = uri, ca_certs_file = ca, get_info = sc,
                  conn_user = dn', conn_password = password\<rparr>
      in
      bnd (emit (Bind conn)) (\<lambda>_.
      if \<not> conn_bind e conn then
        bnd (emit (Log ERROR (CannotBind (conn_last_error e conn)))) (\<lambda>_.
        throw (AuthenticationError ''Cannot bind to ldap server''))
      else ok conn)))))))"

subsection \<open>\<open>group_contains_user\<close>\<close>

definition upper_case :: string where
  "upper_case = ''ABCDEFGHIJKLMNOPQRSTUVWXYZ'' @
     [CHR 0xC0, CHR 0xC1, CHR 0xC2, CHR 0xC3, CHR 0xC4, CHR 0xC5, CHR 0xC6, CHR 0xC7,
      CHR 0xC8, CHR 0xC9, CHR 0xCA, CHR 0xCB, CHR 0xCC, CHR 0xCD, CHR 0xCE, CHR 0xCF,
      CHR 0xD0, CHR 0xD1, CHR 0xD2, CHR 0xD3, CHR 0xD4, CHR 0xD5, CHR 0xD6, CHR 0xD8,
      CHR 0xD9, CHR 0xDA, CHR 0xDB, CHR 0xDC, CHR 0xDD, CHR 0xDE]"

definition lower_case :: string where
  "lower_case = ''abcdefghijklmnopqrstuvwxyz'' @
     [CHR 0xE0, CHR 0xE1, CHR 0xE2, CHR 0xE3, CHR 0xE4, CHR 0xE5, CHR 0xE6, CHR 0xE7,
      CHR 0xE8, CHR 0xE9, CHR 0xEA, CHR 0xEB, CHR 0xEC, CHR 0xED, CHR 0xEE, CHR 0xEF,
      CHR 0xF0, CHR 0xF1, CHR 0xF2, CHR 0xF3, CHR 0xF4, CHR 0xF5, CHR 0xF6, CHR 0xF8,
      CHR 0xF9, CHR 0xFA, CHR 0xFB, CHR 0xFC, CHR 0xFD, CHR 0xFE]"

definition lower_char :: "char \<Rightarrow> char" where
  "lower_char c = (case map_of (zip upper_case lower_case) c of None \<Rightarrow> c | Some l \<Rightarrow> l)"

definition lower :: "string \<Rightarrow> string" where
  "lower s = map lower_char s"

text \<open>The \<open>for entry in conn.entries\<close> loop, which returns at the first match.\<close>

fun entries_loop :: "string \<Rightarrow> string \<Rightarrow> entry list \<Rightarrow> error + bool" where
  "entries_loop user_name_attr username [] = Inr False"
| "entries_loop user_name_attr username (en # ens) =
     (case en user_name_attr of
        None \<Rightarrow> Inl (LDAPCursorError user_name_attr)
      | Some vals \<Rightarrow>
          if lower username \<in> set (map lower vals) then Inr True
          else entries_loop user_name_attr username ens)"

definition group_contains_user ::
  "env \<Rightarrow> connection \<Rightarrow> string \<Rightarrow> string \<Rightarrow> string \<Rightarrow> string \<Rightarrow> bool result" where
  "group_contains_user e conn base group_filter user_name_attr username =
     (let filter' = ''(&('' @ group_filter @ ''))'';
          req = \<lparr>search_base = base, search_filter = filter', search_scope = None,
                 req_attributes = Some [user_name_attr]\<rparr>;
          out = conn_search e conn req
      in
      bnd (emit (Search conn req)) (\<lambda>_.
      if \<not> indicator out then
        bnd (emit (Log WARNING (UnableToFindGroup base filter'))) (\<lambda>_. ok False)
      else (entries_loop user_name_attr username (entries out), [])))"

subsection \<open>\<open>groups_user\<close>\<close>

text \<open>
  \<open>re.compile("cn=([^,]*).*", re.IGNORECASE).search(i)\<close>: the match starts at the
  leftmost position where \<open>cn=\<close> stands in either case, and group 1 is the longest run
  of characters other than a comma that follows it. \<open>regex_search\<close> gives group 1 of
  the match, \<open>None\<close> when there is no match.
\<close>

fun cn_prefix :: "string \<Rightarrow> bool" where
  "cn_prefix (a # b # c # _) =
     ((a = CHR ''c'' \<or> a = CHR ''C'') \<and> (b = CHR ''n'' \<or> b = CHR ''N'') \<and> c = CHR ''='')"
| "cn_prefix _ = False"

fun regex_search :: "string \<Rightarrow> string option" where
  "regex_search [] = None"
| "regex_search (c # cs) =
     (if cn_prefix (c # cs) then Some (takeWhile (\<lambda>x. x \<noteq> CHR '','') (drop 2 cs))
      else regex_search cs)"

text \<open>
  The comprehension \<open>[regex.search(i).group(1) for i in user_groups]\<close>: \<open>.group\<close> on
  the \<open>None\<close> of a failed search raises \<open>AttributeError\<close>.
\<close>

fun groups_comprehension :: "string list \<Rightarrow> error + string list" where
  "groups_comprehension [] = Inr []"
| "groups_comprehension (i # rest) =
     (case regex_search i of
        None \<Rightarrow> Inl (AttributeError ''group'')
      | Some g \<Rightarrow>
          (case groups_comprehension rest of
             Inl err \<Rightarrow> Inl err
           | Inr gs \<Rightarrow> Inr (g # gs)))"

definition groups_user ::
  "env \<Rightarrow> connection \<Rightarrow> string \<Rightarrow> string \<Rightarrow> string \<Rightarrow> string \<Rightarrow> string list result" where
  "groups_user e conn base user_filter user_name_att username =
     (let filter' = ''(&('' @ user_filter @ '')('' @ user_name_att @ ''='' @ username @ ''))'';
          memberof_attr = (case conf e (''ldap'', ''group_member_attr'') of
                             None \<Rightarrow> ''memberOf'' | Some a \<Rightarrow> a);
          req = \<lparr>search_base = base, search_filter = filter', search_scope = None,
                 req_attributes = Some [memberof_attr]\<rparr>;
          out = conn_search e conn req
      in
      bnd (emit (Search conn req)) (\<lambda>_.
      if \<not> indicator out then
        bnd (emit (Log INFO (CannotFindUser username))) (\<lambda>_.
        throw (AuthenticationError ''Invalid username or password''))
      else
        bnd (if response out \<noteq> [] then
               bnd (first (response out)) (\<lambda>item.
               bnd (subscript (attributes item) ''attributes'') (\<lambda>attrs.
               ok (attrs memberof_attr = None)))
             else ok False) (\<lambda>missing.
        if missing then
          bnd (emit (Log WARNING (MissingAttribute memberof_attr))) (\<lambda>_. ok [])
        else
          bnd (first (response out)) (\<lambda>item.
          bnd (subscript (attributes item) ''attributes'') (\<lambda>attrs.
          bnd (subscript (attrs memberof_attr) memberof_attr) (\<lambda>user_groups.
          case groups_comprehension user_groups of
            Inl IndexError \<Rightarrow> bnd (emit (Log WARNING ParsingError)) (\<lambda>_. ok [])
          | Inl err \<Rightarrow> throw err
          | Inr groups_list \<Rightarrow> ok groups_list))))))"

subsection \<open>\<open>LdapUser\<close>\<close>

text \<open>
  \<open>models.User\<close> is outside this module; of a user record the module reads
  \<open>username\<close> and calls \<open>get_id()\<close>.
\<close>

record user =
  user_id :: string
  username :: string

record ldap_user =
  user :: user
  ldap_groups :: "string list"
  superuser :: bool
  data_profiler :: bool

text \<open>
  The constructor runs three blocks on the service connection, in this order; each is a
  definition of its own here.

  A filter variable starts as \<open>None\<close> and keeps that value when \<open>conf.get\<close> raises
  \<open>AirflowConfigException\<close>, so it is \<open>None\<close> or the configured string, and
  \<open>not superuser_filter\<close> holds for \<open>None\<close> and for the empty string. The arguments
  of \<open>group_contains_user\<close> are evaluated left to right before the call.
\<close>

definition superuser_block :: "env \<Rightarrow> connection \<Rightarrow> user \<Rightarrow> bool result" where
  "superuser_block e conn u =
     (case conf e (''ldap'', ''superuser_filter'') of
        None \<Rightarrow> bnd (emit (Log DEBUG MissingSuperuserSettings)) (\<lambda>_. ok True)
      | Some superuser_filter \<Rightarrow>
          if superuser_filter = [] then
            bnd (emit (Log DEBUG MissingSuperuserSettings)) (\<lambda>_. ok True)
          else
            bnd (conf_get e ''ldap'' ''basedn'') (\<lambda>bd.
            bnd (conf_get e ''ldap'' ''user_name_attr'') (\<lambda>ua.
            group_contains_user e conn bd superuser_filter ua (username u))))"

definition data_profiler_block :: "env \<Rightarrow> connection \<Rightarrow> user \<Rightarrow> bool result" where
  "data_profiler_block e conn u =
     (case conf e (''ldap'', ''data_profiler_filter'') of
        None \<Rightarrow> bnd (emit (Log DEBUG MissingDataProfilerSettings)) (\<lambda>_. ok True)
      | Some data_profiler_filter \<Rightarrow>
          if data_profiler_filter = [] then
            bnd (emit (Log DEBUG MissingDataProfilerSettings)) (\<lambda>_. ok True)
          else
            bnd (conf_get e ''ldap'' ''basedn'') (\<lambda>bd.
            bnd (conf_get e ''ldap'' ''user_name_attr'') (\<lambda>ua.
            group_contains_user e conn bd data_profiler_filter ua (username u))))"

text \<open>
  The last \<open>try\<close> covers the evaluation of the arguments of \<open>groups_user\<close> and the
  call, and catches \<open>AirflowConfigException\<close> only; \<open>self.ldap_groups\<close> is then still
  the empty list it was initialised to.
\<close>

definition ldap_groups_block :: "env \<Rightarrow> connection \<Rightarrow> user \<Rightarrow> string list result" where
  "ldap_groups_block e conn u =
     (case bnd (conf_get e ''ldap'' ''basedn'') (\<lambda>bd.
           bnd (conf_get e ''ldap'' ''user_filter'') (\<lambda>uf.
           bnd (conf_get e ''ldap'' ''user_name_attr'') (\<lambda>ua.
           groups_user e conn bd uf ua (username u)))) of
        (Inl (AirflowConfigException s k), evs) \<Rightarrow>
          (Inr [], evs @ [Log DEBUG MissingLdapSettings])
      | r \<Rightarrow> r)"

definition LdapUser_init :: "env \<Rightarrow> user \<Rightarrow> ldap_user result" where
  "LdapUser_init e u =
     bnd (conf_get e ''ldap'' ''bind_user'') (\<lambda>bu.
     bnd (conf_get e ''ldap'' ''bind_password'') (\<lambda>bp.
     bnd (get_ldap_connection e bu bp) (\<lambda>conn.
     bnd (superuser_block e conn u) (\<lambda>su.
     bnd (data_profiler_block e conn u) (\<lambda>dp.
     bnd (ldap_groups_block e conn u) (\<lambda>groups.
     ok \<lparr>user = u, ldap_groups = groups, superuser = su, data_profiler = dp\<rparr>))))))"

definition is_superuser :: "ldap_user \<Rightarrow> bool" where
  "is_superuser self = superuser self"

definition data_profiling :: "ldap_user \<Rightarrow> bool" where
  "data_profiling self = data_profiler self"

text \<open>
  \<open>not conn\<close> for a connection object: the ldap3 \<open>Connection\<close> class defines neither
  \<open>__bool__\<close> nor \<open>__len__\<close>, so its instances are true.
\<close>

definition connection_truthy :: "connection \<Rightarrow> bool" where
  "connection_truthy c = True"

text \<open>
  \<open>try_login\<close> returns nothing on success. The \<open>except KeyError\<close> covers the second
  call of \<open>get_ldap_connection\<close> and turns a \<open>KeyError\<close> into an \<open>LdapException\<close>.
\<close>

definition try_login :: "env \<Rightarrow> string \<Rightarrow> string \<Rightarrow> unit result" where
  "try_login e username' password =
     bnd (conf_get e ''ldap'' ''bind_user'') (\<lambda>bu.
     bnd (conf_get e ''ldap'' ''bind_password'') (\<lambda>bp.
     bnd (get_ldap_connection e bu bp) (\<lambda>conn.
     bnd (conf_get e ''ldap'' ''user_filter'') (\<lambda>uf.
     bnd (conf_get e ''ldap'' ''user_name_attr'') (\<lambda>ua.
     let filter' = ''(&('' @ uf @ '')('' @ ua @ ''='' @ username' @ ''))'' in
     bnd (if has_option e ''ldap'' ''search_scope'' then
            bnd (conf_get e ''ldap'' ''search_scope'') (\<lambda>sc.
            ok (if sc = ''SUBTREE'' then SUBTREE else LEVEL))
          else ok LEVEL) (\<lambda>scope'.
     bnd (conf_get e ''ldap'' ''basedn'') (\<lambda>bd.
     let req = \<lparr>search_base = bd, search_filter = filter', search_scope = Some scope',
                req_attributes = None\<rparr>;
         out = conn_search e conn req
     in
     bnd (emit (Search conn req)) (\<lambda>_.
     if \<not> indicator out then
       bnd (emit (Log INFO (CannotFindUser username'))) (\<lambda>_.
       throw (AuthenticationError ''Invalid username or password''))
     else
       bnd (first (response out)) (\<lambda>item.
       bnd (emit (Unbind conn)) (\<lambda>_.
       case dn item of
         None \<Rightarrow> throw (AuthenticationError ''Invalid username or password'')
       | Some user_dn \<Rightarrow>
           bnd (case get_ldap_connection e user_dn password of
                  (Inl (KeyError k), evs) \<Rightarrow>
                    bnd (Inr (), evs) (\<lambda>_.
                    bnd (emit (Log ERROR UnableToParseStructure)) (\<lambda>_.
                    throw (LdapException
                      ''Could not parse LDAP structure. Try setting search_scope in airflow.cfg, or check logs'')))
                | r \<Rightarrow> r) (\<lambda>conn'.
           if \<not> connection_truthy conn' then
             bnd (emit (Log INFO (PasswordIncorrect username'))) (\<lambda>_.
             throw (AuthenticationError ''Invalid username or password''))
           else ok ())))))))))))"

subsection \<open>An example deployment\<close>

text \<open>
  A configuration with every key of the module's default file except the two filters,
  and a small directory: the service account, the users alice, bob, dave, frank, erin and a referral
  for carol, and two groups.
\<close>

definition example_conf :: "string \<times> string \<rightharpoonup> string" where
  "example_conf = map_of
     [((''ldap'', ''uri''), ''ldaps://ldap.example.com''),
      ((''ldap'', ''cacert''), ''/etc/ca/ldap_ca.crt''),
      ((''ldap'', ''ignore_malformed_schema''), ''False''),
      ((''ldap'', ''search_scope''), ''LEVEL''),
      ((''ldap'', ''bind_user''), ''cn=Manager,dc=example,dc=com''),
      ((''ldap'', ''bind_password''), ''insecure''),
      ((''ldap'', ''basedn''), ''dc=example,dc=com''),
      ((''ldap'', ''user_filter''), ''objectClass=*''),
      ((''ldap'', ''user_name_attr''), ''uid'')]"

definition example_bind :: "connection \<Rightarrow> bool" where
  "example_bind c =
     ((conn_user c, conn_password c) \<in> set
        [(''cn=Manager,dc=example,dc=com'', ''insecure''),
         (''uid=bob,dc=example,dc=com'', ''correct''),
         (''uid=dave,dc=example,dc=com'', ''correct'')])"

definition person :: "string \<Rightarrow> string list option \<Rightarrow> outcome" where
  "person d member_of =
     \<lparr>indicator = True,
      response = [\<lparr>dn = Some d, attributes = Some (\<lambda>a. if a = ''memberOf'' then member_of else None)\<rparr>],
      entries = [\<lambda>a. if a = ''memberOf'' then member_of else None]\<rparr>"

definition example_search :: "connection \<Rightarrow> request \<Rightarrow> outcome" where
  "example_search c req =
     (if search_filter req = ''(&(objectClass=*)(uid=bob))'' then
        person ''uid=bob,dc=example,dc=com''
          (Some [''cn=Admins,ou=Groups,dc=example,dc=com'', ''CN=Ops,ou=Groups,dc=example,dc=com''])
      else if search_filter req = ''(&(objectClass=*)(uid=alice))'' then
        person ''uid=alice,dc=example,dc=com'' (Some [''cn=Admins,ou=Groups,dc=example,dc=com''])
      else if search_filter req = ''(&(objectClass=*)(uid=dave))'' then
        person ''uid=dave,dc=example,dc=com''
          (Some [''cn=Admins,ou=Groups,dc=example,dc=com'', ''ou=People,dc=example,dc=com''])
      else if search_filter req = ''(&(objectClass=*)(uid=frank))'' then
        person ''uid=frank,dc=example,dc=com''
          (Some [''cn=Admins,ou=Groups,dc=example,dc=com'', ''ou=Staff,CN=Ops,dc=example,dc=com''])
      else if search_filter req = ''(&(objectClass=*)(uid=erin))'' then
        person ''uid=erin,dc=example,dc=com'' None
      else if search_filter req = ''(&(objectClass=*)(uid=carol))'' then
        \<lparr>indicator = True, response = [\<lparr>dn = None, attributes = None\<rparr>], entries = []\<rparr>
      else if search_filter req = ''(&(cn=admins))'' then
        \<lparr>indicator = True,
         response = [\<lparr>dn = Some ''cn=admins,ou=Groups,dc=example,dc=com'',
                      attributes = Some [''uid'' \<mapsto> [''alice'', ''bob'']]\<rparr>],
         entries = [[''uid'' \<mapsto> [''alice'', ''bob'']]]\<rparr>
      else if search_filter req = ''(&(cn=profilers))'' then
        \<lparr>indicator = True,
         response = [\<lparr>dn = Some ''cn=profilers,ou=Groups,dc=example,dc=com'', attributes = Some Map.empty\<rparr>,
                     \<lparr>dn = Some ''cn=profilers,ou=Legacy,dc=example,dc=com'',
                      attributes = Some [''uid'' \<mapsto> [''alice'']]\<rparr>],
         entries = [Map.empty, [''uid'' \<mapsto> [''alice'']]]\<rparr>
      else \<lparr>indicator = False, response = [], entries = []\<rparr>)"

definition example_env :: env where
  "example_env =
     \<lparr>conf = example_conf, conn_bind = example_bind,
      conn_last_error = (\<lambda>c. ''invalidCredentials''), conn_search = example_search\<rparr>"

text \<open>The connection that \<open>get_ldap_connection\<close> builds under \<open>example_conf\<close>.\<close>

definition example_connection :: "string \<Rightarrow> string \<Rightarrow> connection" where
  "example_connection d p =
     \<lparr>server_uri = ''ldaps://ldap.example.com'', ca_certs_file = ''/etc/ca/ldap_ca.crt'',
      get_info = ''LEVEL'', conn_user = d, conn_password = p\<rparr>"

definition service_connection :: connection where
  "service_connection = example_connection ''cn=Manager,dc=example,dc=com'' ''insecure''"

section \<open>Properties\<close>

subsection \<open>Sequencing\<close>

lemma bnd_ok [simp]: "bnd (ok x) f = f x"
  by (simp add: bnd_def ok_def split: prod.splits)

lemma bnd_throw [simp]: "bnd (throw err) f = throw err"
  by (simp add: bnd_def throw_def)

lemma bnd_emit [simp]: "bnd (emit ev) f = (fst (f ()), ev # snd (f ()))"
  by (simp add: bnd_def emit_def split: prod.splits)

lemma bnd_Inl [simp]: "bnd (Inl err, evs) f = (Inl err, evs)"
  by (simp add: bnd_def)

lemma bnd_Inr [simp]: "bnd (Inr x, evs) f = (fst (f x), evs @ snd (f x))"
  by (simp add: bnd_def split: prod.splits)

lemma fst_ok [simp]: "fst (ok x) = Inr x" and snd_ok [simp]: "snd (ok x) = []"
  by (simp_all add: ok_def)

lemma fst_throw [simp]: "fst (throw err) = Inl err" and snd_throw [simp]: "snd (throw err) = []"
  by (simp_all add: throw_def)

lemmas ex_defs = example_env_def example_conf_def example_bind_def example_search_def
  person_def example_connection_def service_connection_def

lemmas run_defs = conf_get_def has_option_def read_local_def first_def subscript_def Let_def



subsection \<open>Extraction of the group names\<close>








subsection \<open>The group list\<close>

lemma groups_comprehension_map:
  "\<forall>v\<in>set vals. regex_search v \<noteq> None \<Longrightarrow>
   groups_comprehension vals = Inr (map (\<lambda>v. the (regex_search v)) vals)"
  by (induction vals) auto

lemma groups_comprehension_error:
  "groups_comprehension vals = Inl err \<Longrightarrow> err = AttributeError ''group''"
  by (induction vals) (auto split: option.splits sum.splits)





text \<open>
  Claim C3 (as amended). When the search succeeds and every value of the membership
  attribute of the first response item holds a \<open>cn=\<close> component, \<open>groups_user\<close> returns
  the extracted name of every value, in order, and logs nothing.
\<close>

theorem groups_user_well_formed:
  assumes "req = \<lparr>search_base = base,
                   search_filter = ''(&('' @ uf @ '')('' @ ua @ ''='' @ u @ ''))'',
                   search_scope = None, req_attributes = Some [memberof]\<rparr>"
    and "memberof = (case conf e (''ldap'', ''group_member_attr'') of None \<Rightarrow> ''memberOf'' | Some a \<Rightarrow> a)"
    and "indicator (conn_search e conn req)"
    and "response (conn_search e conn req) = item # items"
    and "attributes item = Some attrs"
    and "attrs memberof = Some vals"
    and "\<forall>v\<in>set vals. regex_search v \<noteq> None"
  shows "groups_user e conn base uf ua u =
           (Inr (map (\<lambda>v. the (regex_search v)) vals), [Search conn req])"
  using assms(3-6) groups_comprehension_map [OF assms(7)]
  unfolding groups_user_def assms(1) assms(2)
  by (simp add: run_defs)

theorem groups_user_well_formed_witness:
  "groups_user example_env service_connection ''dc=example,dc=com'' ''objectClass=*'' ''uid'' ''bob'' =
     (Inr [''Admins'', ''Ops''],
      [Search service_connection
         \<lparr>search_base = ''dc=example,dc=com'', search_filter = ''(&(objectClass=*)(uid=bob))'',
          search_scope = None, req_attributes = Some [''memberOf'']\<rparr>])"
proof -
  let ?vals = "[''cn=Admins,ou=Groups,dc=example,dc=com'', ''CN=Ops,ou=Groups,dc=example,dc=com'']"
  let ?attrs = "\<lambda>a. if a = ''memberOf'' then Some ?vals else None"
  let ?item = "\<lparr>dn = Some ''uid=bob,dc=example,dc=com'', attributes = Some ?attrs\<rparr>"
  let ?req = "\<lparr>search_base = ''dc=example,dc=com'',
               search_filter = ''(&('' @ ''objectClass=*'' @ '')('' @ ''uid'' @ ''='' @ ''bob'' @ ''))'',
               search_scope = None, req_attributes = Some [''memberOf'']\<rparr>"
  have m: "''memberOf'' = (case conf example_env (''ldap'', ''group_member_attr'') of
                            None \<Rightarrow> ''memberOf'' | Some a \<Rightarrow> a)"
    by (simp add: ex_defs)
  have i: "indicator (conn_search example_env service_connection ?req)"
    by (simp add: ex_defs)
  have r: "response (conn_search example_env service_connection ?req) = ?item # []"
    by (simp add: ex_defs)
  have a: "attributes ?item = Some ?attrs" by simp
  have v: "?attrs ''memberOf'' = Some ?vals" by simp
  have w: "\<forall>v\<in>set ?vals. regex_search v \<noteq> None" by simp
  from groups_user_well_formed [OF refl m i r a v w] show ?thesis by simp
qed

text \<open>
  Claim C3 as first stated fails: for dave, whose second value has no \<open>cn=\<close>, the call
  raises \<open>AttributeError\<close> instead of returning the name of the first value.
\<close>

theorem groups_user_mixed_list_counterexample:
  "indicator (example_search service_connection
      \<lparr>search_base = ''dc=example,dc=com'', search_filter = ''(&(objectClass=*)(uid=dave))'',
       search_scope = None, req_attributes = Some [''memberOf'']\<rparr>)
   \<and> regex_search ''cn=Admins,ou=Groups,dc=example,dc=com'' = Some ''Admins''
   \<and> regex_search ''ou=People,dc=example,dc=com'' = None
   \<and> fst (groups_user example_env service_connection ''dc=example,dc=com'' ''objectClass=*'' ''uid'' ''dave'')
       = Inl (AttributeError ''group'')
   \<and> fst (groups_user example_env service_connection ''dc=example,dc=com'' ''objectClass=*'' ''uid'' ''dave'')
       \<noteq> Inr [''Admins'']"
  by (simp add: groups_user_def ex_defs run_defs)

subsection \<open>Failures of \<open>groups_user\<close>\<close>

lemma groups_user_authentication_error_iff:
  assumes "req = \<lparr>search_base = base,
                   search_filter = ''(&('' @ uf @ '')('' @ ua @ ''='' @ u @ ''))'',
                   search_scope = None, req_attributes = Some [memberof]\<rparr>"
    and "memberof = (case conf e (''ldap'', ''group_member_attr'') of None \<Rightarrow> ''memberOf'' | Some a \<Rightarrow> a)"
  shows "fst (groups_user e conn base uf ua u) = Inl (AuthenticationError msg) \<longleftrightarrow>
           \<not> indicator (conn_search e conn req) \<and> msg = ''Invalid username or password''"
proof (cases "indicator (conn_search e conn req)")
  case False
  then show ?thesis
    unfolding groups_user_def assms by (auto simp: run_defs)
next
  case True
  have "fst (groups_user e conn base uf ua u) \<noteq> Inl (AuthenticationError msg)"
  proof (cases "response (conn_search e conn req)")
    case Nil
    with True show ?thesis
      unfolding groups_user_def assms by (simp add: run_defs throw_def)
  next
    case (Cons item items)
    show ?thesis
    proof (cases "attributes item")
      case None
      with True Cons show ?thesis
        unfolding groups_user_def assms by (simp add: run_defs throw_def)
    next
      case (Some attrs)
      show ?thesis
      proof (cases "attrs memberof")
        case None
        with True Cons Some show ?thesis
          unfolding groups_user_def assms by (simp add: run_defs)
      next
        case (Some vals)
        note v = this
        show ?thesis
        proof (cases "groups_comprehension vals")
          case (Inl err)
          then have "err = AttributeError ''group''" by (rule groups_comprehension_error)
          with Inl True Cons \<open>attributes item = Some attrs\<close> v show ?thesis
            unfolding groups_user_def assms by (simp add: run_defs)
        next
          case (Inr gs)
          with True Cons \<open>attributes item = Some attrs\<close> v show ?thesis
            unfolding groups_user_def assms by (simp add: run_defs)
        qed
      qed
    qed
  qed
  with True show ?thesis by simp
qed

lemma groups_user_missing_attribute:
  assumes "req = \<lparr>search_base = base,
                   search_filter = ''(&('' @ uf @ '')('' @ ua @ ''='' @ u @ ''))'',
                   search_scope = None, req_attributes = Some [memberof]\<rparr>"
    and "memberof = (case conf e (''ldap'', ''group_member_attr'') of None \<Rightarrow> ''memberOf'' | Some a \<Rightarrow> a)"
    and "indicator (conn_search e conn req)"
    and "response (conn_search e conn req) = item # items"
    and "attributes item = Some attrs"
    and "attrs memberof = None"
  shows "groups_user e conn base uf ua u =
           (Inr [], [Search conn req, Log WARNING (MissingAttribute memberof)])"
  using assms(3-6) unfolding groups_user_def assms(1) assms(2)
  by (simp add: run_defs)

text \<open>
  Claim C6 at its failing input: the search for dave succeeds, and \<open>groups_user\<close> raises an
  \<open>AttributeError\<close> on the value without \<open>cn=\<close>; the \<open>except IndexError\<close> does not catch
  it and no warning is logged.
\<close>

theorem groups_user_malformed_entry_raises:
  "indicator (conn_search example_env service_connection
      \<lparr>search_base = ''dc=example,dc=com'', search_filter = ''(&(objectClass=*)(uid=dave))'',
       search_scope = None, req_attributes = Some [''memberOf'']\<rparr>)
   \<and> groups_user example_env service_connection ''dc=example,dc=com'' ''objectClass=*'' ''uid'' ''dave''
       = (Inl (AttributeError ''group''),
          [Search service_connection
             \<lparr>search_base = ''dc=example,dc=com'', search_filter = ''(&(objectClass=*)(uid=dave))'',
              search_scope = None, req_attributes = Some [''memberOf'']\<rparr>])"
  by (simp add: groups_user_def ex_defs run_defs)

subsection \<open>Group membership\<close>





lemma fst_group_contains_user:
  "fst (group_contains_user e conn base gf ua u) =
     (if indicator (conn_search e conn \<lparr>search_base = base, search_filter = ''(&('' @ gf @ ''))'',
                  search_scope = None, req_attributes = Some [ua]\<rparr>)
      then entries_loop ua u (entries (conn_search e conn \<lparr>search_base = base,
                  search_filter = ''(&('' @ gf @ ''))'',
                  search_scope = None, req_attributes = Some [ua]\<rparr>))
      else Inr False)"
  by (simp add: group_contains_user_def Let_def)


lemma entries_loop_error:
  "entries_loop ua u ens = Inl err \<Longrightarrow> err = LDAPCursorError ua"
  by (induction ens) (auto split: option.splits if_splits)







subsection \<open>Obtaining a connection\<close>

lemma get_ldap_connection_Inr:
  assumes "fst (get_ldap_connection e d p) = Inr c"
  shows "conn_bind e c \<and> conn_user c = d \<and> conn_password c = p
       \<and> conf e (''ldap'', ''uri'') = Some (server_uri c)
       \<and> conf e (''ldap'', ''cacert'') = Some (ca_certs_file c)
       \<and> conf e (''ldap'', ''search_scope'') = Some (get_info c)
       \<and> conf e (''ldap'', ''ignore_malformed_schema'') \<noteq> None"
  using assms unfolding get_ldap_connection_def
  by (auto simp: run_defs split: option.splits if_splits)

lemma get_ldap_connection_no_KeyError:
  "fst (get_ldap_connection e d p) \<noteq> Inl (KeyError k)"
  unfolding get_ldap_connection_def
  by (auto simp: run_defs split: option.splits if_splits)

lemma get_ldap_connection_rebind:
  assumes "fst (get_ldap_connection e d p) = Inr c"
  shows "fst (get_ldap_connection e d' p') =
           (if conn_bind e (c\<lparr>conn_user := d', conn_password := p'\<rparr>)
            then Inr (c\<lparr>conn_user := d', conn_password := p'\<rparr>)
            else Inl (AuthenticationError ''Cannot bind to ldap server''))"
  using assms unfolding get_ldap_connection_def
  by (auto simp: run_defs split: option.splits if_splits)

lemma notin_bnd:
  "ev \<notin> set (snd m) \<Longrightarrow> (\<And>x. ev \<notin> set (snd (f x))) \<Longrightarrow> ev \<notin> set (snd (bnd m f))"
proof -
  assume a: "ev \<notin> set (snd m)" and b: "\<And>x. ev \<notin> set (snd (f x))"
  obtain r evs where m: "m = (r, evs)" by (cases m)
  show ?thesis
  proof (cases r)
    case (Inl err)
    with m a show ?thesis by simp
  next
    case (Inr x)
    with m a b [of x] show ?thesis by simp
  qed
qed

lemma notin_simple [simp]:
  "ev \<notin> set (snd (ok x))" "ev \<notin> set (snd (throw err))"
  "ev \<notin> set (snd (conf_get e s k))" "ev \<notin> set (snd (first xs))"
  "ev \<notin> set (snd (read_local n v))" "ev \<notin> set (snd (subscript w key))"
  by (simp_all add: run_defs split: option.splits list.splits)

lemma notin_emit [simp]: "ev \<notin> set (snd (emit ev')) \<longleftrightarrow> ev \<noteq> ev'"
  by (auto simp: emit_def)

lemma get_ldap_connection_no_info:
  "Log INFO m \<notin> set (snd (get_ldap_connection e d p))"
  unfolding get_ldap_connection_def Let_def
  by (intro notin_bnd) (simp_all split: if_splits)

subsection \<open>The login\<close>

lemma except_KeyError_unused:
  "(case get_ldap_connection e user_dn password of
      (Inl (KeyError k), evs) \<Rightarrow>
        bnd (Inr (), evs) (\<lambda>_.
        bnd (emit (Log ERROR UnableToParseStructure)) (\<lambda>_.
        throw (LdapException
          ''Could not parse LDAP structure. Try setting search_scope in airflow.cfg, or check logs'')))
    | r \<Rightarrow> r) = get_ldap_connection e user_dn password"
proof (cases "get_ldap_connection e user_dn password")
  case (Pair r evs)
  with get_ldap_connection_no_KeyError [of e user_dn password]
  have "\<And>k. r \<noteq> Inl (KeyError k)" by simp
  with Pair show ?thesis
    by (cases r) (auto split: error.splits)
qed

lemma mem_snd_bnd:
  "ev \<in> set (snd (bnd m f)) \<longleftrightarrow>
     ev \<in> set (snd m) \<or> (\<exists>x. fst m = Inr x \<and> ev \<in> set (snd (f x)))"
proof -
  obtain r evs where m: "m = (r, evs)" by (cases m)
  show ?thesis unfolding m by (cases r) auto
qed

lemma try_login_no_password_incorrect:
  "Log INFO (PasswordIncorrect u') \<notin> set (snd (try_login e u p))"
  unfolding try_login_def Let_def except_KeyError_unused connection_truthy_def
  by (auto simp: mem_snd_bnd get_ldap_connection_no_info split: option.splits if_splits)

lemma try_login_after_bind:
  assumes "conf e (''ldap'', ''bind_user'') = Some bu"
    and "conf e (''ldap'', ''bind_password'') = Some bp"
    and "get_ldap_connection e bu bp = (Inr conn, pre)"
    and "conf e (''ldap'', ''user_filter'') = Some uf"
    and "conf e (''ldap'', ''user_name_attr'') = Some ua"
    and "conf e (''ldap'', ''basedn'') = Some bd"
    and "req = \<lparr>search_base = bd,
                 search_filter = ''(&('' @ uf @ '')('' @ ua @ ''='' @ u @ ''))'',
                 search_scope = Some (if conf e (''ldap'', ''search_scope'') = Some ''SUBTREE''
                                      then SUBTREE else LEVEL),
                 req_attributes = None\<rparr>"
  shows "try_login e u p =
    (if \<not> indicator (conn_search e conn req) then
       (Inl (AuthenticationError ''Invalid username or password''),
        pre @ [Search conn req, Log INFO (CannotFindUser u)])
     else case response (conn_search e conn req) of
       [] \<Rightarrow> (Inl IndexError, pre @ [Search conn req])
     | item # items \<Rightarrow>
         (case dn item of
            None \<Rightarrow> (Inl (AuthenticationError ''Invalid username or password''),
                     pre @ [Search conn req, Unbind conn])
          | Some d \<Rightarrow>
              (map_sum id (\<lambda>_. ()) (fst (get_ldap_connection e d p)),
               pre @ [Search conn req, Unbind conn] @ snd (get_ldap_connection e d p))))"
proof -
  from assms(3) have "fst (get_ldap_connection e bu bp) = Inr conn" by simp
  from get_ldap_connection_Inr [OF this]
  obtain sc where sc: "conf e (''ldap'', ''search_scope'') = Some sc" by blast
  have k: "\<And>d. bnd (get_ldap_connection e d p) (\<lambda>conn'. ok ()) =
      (map_sum id (\<lambda>_. ()) (fst (get_ldap_connection e d p)), snd (get_ldap_connection e d p))"
  proof -
    fix d
    obtain r evs where g: "get_ldap_connection e d p = (r, evs)"
      by (cases "get_ldap_connection e d p")
    show "bnd (get_ldap_connection e d p) (\<lambda>conn'. ok ()) =
      (map_sum id (\<lambda>_. ()) (fst (get_ldap_connection e d p)), snd (get_ldap_connection e d p))"
      unfolding g by (cases r) simp_all
  qed
  show ?thesis
    unfolding try_login_def Let_def except_KeyError_unused connection_truthy_def assms(7)
    using assms(1-6) sc
    by (simp add: run_defs k split: list.splits option.splits)
qed

text \<open>
  Claim C5. Once the service connection is bound and the configuration holds the keys the
  search needs: if the search indicator reports failure, or the first response item has no
  \<open>dn\<close>, \<open>try_login\<close> raises the same \<open>AuthenticationError\<close> with the text
  \<open>Invalid username or password\<close>; and if the item has a \<open>dn\<close>, the events of the
  login are those of the service bind, the search, the unbind of the service connection and
  only then those of the bind with the user's DN.
\<close>

theorem try_login_search_step:
  assumes "conf e (''ldap'', ''bind_user'') = Some bu"
    and "conf e (''ldap'', ''bind_password'') = Some bp"
    and "get_ldap_connection e bu bp = (Inr conn, pre)"
    and "conf e (''ldap'', ''user_filter'') = Some uf"
    and "conf e (''ldap'', ''user_name_attr'') = Some ua"
    and "conf e (''ldap'', ''basedn'') = Some bd"
    and "req = \<lparr>search_base = bd,
                 search_filter = ''(&('' @ uf @ '')('' @ ua @ ''='' @ u @ ''))'',
                 search_scope = Some (if conf e (''ldap'', ''search_scope'') = Some ''SUBTREE''
                                      then SUBTREE else LEVEL),
                 req_attributes = None\<rparr>"
  shows "(\<not> indicator (conn_search e conn req) \<longrightarrow>
            fst (try_login e u p) = Inl (AuthenticationError ''Invalid username or password''))
       \<and> (indicator (conn_search e conn req) \<and> response (conn_search e conn req) = item # items
            \<and> dn item = None \<longrightarrow>
            try_login e u p = (Inl (AuthenticationError ''Invalid username or password''),
                               pre @ [Search conn req, Unbind conn]))
       \<and> (indicator (conn_search e conn req) \<and> response (conn_search e conn req) = item # items
            \<and> dn item = Some d \<longrightarrow>
            snd (try_login e u p) =
              pre @ [Search conn req, Unbind conn] @ snd (get_ldap_connection e d p))"
  unfolding try_login_after_bind [OF assms] by simp

theorem try_login_search_step_witness:
  "fst (try_login example_env ''zed'' ''secret'') =
     Inl (AuthenticationError ''Invalid username or password'')
   \<and> fst (try_login example_env ''carol'' ''secret'') =
     Inl (AuthenticationError ''Invalid username or password'')
   \<and> snd (try_login example_env ''bob'' ''correct'') =
     [SetConfigParameter ''IGNORE_MALFORMED_SCHEMA'' ''False'', Bind service_connection,
      Search service_connection
        \<lparr>search_base = ''dc=example,dc=com'', search_filter = ''(&(objectClass=*)(uid=bob))'',
         search_scope = Some LEVEL, req_attributes = None\<rparr>,
      Unbind service_connection,
      SetConfigParameter ''IGNORE_MALFORMED_SCHEMA'' ''False'',
      Bind (example_connection ''uid=bob,dc=example,dc=com'' ''correct'')]"
proof -
  have c: "conf example_env (''ldap'', ''bind_user'') = Some ''cn=Manager,dc=example,dc=com''"
    "conf example_env (''ldap'', ''bind_password'') = Some ''insecure''"
    "get_ldap_connection example_env ''cn=Manager,dc=example,dc=com'' ''insecure'' =
       (Inr service_connection,
        [SetConfigParameter ''IGNORE_MALFORMED_SCHEMA'' ''False'', Bind service_connection])"
    "conf example_env (''ldap'', ''user_filter'') = Some ''objectClass=*''"
    "conf example_env (''ldap'', ''user_name_attr'') = Some ''uid''"
    "conf example_env (''ldap'', ''basedn'') = Some ''dc=example,dc=com''"
    by (simp_all add: get_ldap_connection_def ex_defs run_defs)
  have g: "snd (get_ldap_connection example_env ''uid=bob,dc=example,dc=com'' ''correct'') =
      [SetConfigParameter ''IGNORE_MALFORMED_SCHEMA'' ''False'',
       Bind (example_connection ''uid=bob,dc=example,dc=com'' ''correct'')]"
    by (simp add: get_ldap_connection_def ex_defs run_defs)
  have 1: "fst (try_login example_env ''zed'' ''secret'') =
     Inl (AuthenticationError ''Invalid username or password'')"
    using try_login_search_step [OF c refl, where u = "''zed''" and p = "''secret''"]
    by (simp add: ex_defs)
  have 2: "fst (try_login example_env ''carol'' ''secret'') =
     Inl (AuthenticationError ''Invalid username or password'')"
    using try_login_search_step [OF c refl, where u = "''carol''" and p = "''secret''"
        and item = "\<lparr>dn = None, attributes = None\<rparr>" and items = "[]"]
    by (simp add: ex_defs)
  have 3: "snd (try_login example_env ''bob'' ''correct'') =
     [SetConfigParameter ''IGNORE_MALFORMED_SCHEMA'' ''False'', Bind service_connection,
      Search service_connection
        \<lparr>search_base = ''dc=example,dc=com'', search_filter = ''(&(objectClass=*)(uid=bob))'',
         search_scope = Some LEVEL, req_attributes = None\<rparr>,
      Unbind service_connection,
      SetConfigParameter ''IGNORE_MALFORMED_SCHEMA'' ''False'',
      Bind (example_connection ''uid=bob,dc=example,dc=com'' ''correct'')]"
    using try_login_search_step [OF c refl, where u = "''bob''" and item =
        "\<lparr>dn = Some ''uid=bob,dc=example,dc=com'',
          attributes = Some (\<lambda>a. if a = ''memberOf'' then Some [''cn=Admins,ou=Groups,dc=example,dc=com'', ''CN=Ops,ou=Groups,dc=example,dc=com''] else None)\<rparr>"
        and items = "[]" and p = "''correct''" and d = "''uid=bob,dc=example,dc=com''"] g
    by (simp add: ex_defs)
  from 1 2 3 show ?thesis by simp
qed

text \<open>
  Claim C9. A connection returned by \<open>get_ldap_connection\<close> is bound and true; the log
  record of the \<open>if not conn\<close> branch of \<open>try_login\<close> occurs in no run; and when the
  bind with the user's DN and the supplied password is refused, \<open>try_login\<close> raises the
  error raised inside \<open>get_ldap_connection\<close>.
\<close>

theorem password_incorrect_branch_unreachable:
  "(fst (get_ldap_connection e d p) = Inr c \<longrightarrow> conn_bind e c \<and> connection_truthy c)
   \<and> Log INFO (PasswordIncorrect u) \<notin> set (snd (try_login e u p))
   \<and> (conf e (''ldap'', ''bind_user'') = Some bu
       \<and> conf e (''ldap'', ''bind_password'') = Some bp
       \<and> get_ldap_connection e bu bp = (Inr conn, pre)
       \<and> conf e (''ldap'', ''user_filter'') = Some uf
       \<and> conf e (''ldap'', ''user_name_attr'') = Some ua
       \<and> conf e (''ldap'', ''basedn'') = Some bd
       \<and> req = \<lparr>search_base = bd,
                 search_filter = ''(&('' @ uf @ '')('' @ ua @ ''='' @ u @ ''))'',
                 search_scope = Some (if conf e (''ldap'', ''search_scope'') = Some ''SUBTREE''
                                      then SUBTREE else LEVEL),
                 req_attributes = None\<rparr>
       \<and> indicator (conn_search e conn req)
       \<and> response (conn_search e conn req) = item # items
       \<and> dn item = Some d
       \<and> \<not> conn_bind e (conn\<lparr>conn_user := d, conn_password := p\<rparr>)
       \<longrightarrow> fst (get_ldap_connection e d p) = Inl (AuthenticationError ''Cannot bind to ldap server'')
         \<and> fst (try_login e u p) = Inl (AuthenticationError ''Cannot bind to ldap server''))"
proof (intro conjI impI)
  assume "fst (get_ldap_connection e d p) = Inr c"
  from get_ldap_connection_Inr [OF this] show "conn_bind e c" by simp
next
  show "connection_truthy c" by (simp add: connection_truthy_def)
next
  show "Log INFO (PasswordIncorrect u) \<notin> set (snd (try_login e u p))"
    by (rule try_login_no_password_incorrect)
next
  assume h: "conf e (''ldap'', ''bind_user'') = Some bu
       \<and> conf e (''ldap'', ''bind_password'') = Some bp
       \<and> get_ldap_connection e bu bp = (Inr conn, pre)
       \<and> conf e (''ldap'', ''user_filter'') = Some uf
       \<and> conf e (''ldap'', ''user_name_attr'') = Some ua
       \<and> conf e (''ldap'', ''basedn'') = Some bd
       \<and> req = \<lparr>search_base = bd,
                 search_filter = ''(&('' @ uf @ '')('' @ ua @ ''='' @ u @ ''))'',
                 search_scope = Some (if conf e (''ldap'', ''search_scope'') = Some ''SUBTREE''
                                      then SUBTREE else LEVEL),
                 req_attributes = None\<rparr>
       \<and> indicator (conn_search e conn req)
       \<and> response (conn_search e conn req) = item # items
       \<and> dn item = Some d
       \<and> \<not> conn_bind e (conn\<lparr>conn_user := d, conn_password := p\<rparr>)"
  then have "fst (get_ldap_connection e bu bp) = Inr conn" by simp
  from get_ldap_connection_rebind [OF this, of d p] h
  show g: "fst (get_ldap_connection e d p) = Inl (AuthenticationError ''Cannot bind to ldap server'')"
    by simp
  from h have c: "conf e (''ldap'', ''bind_user'') = Some bu"
    "conf e (''ldap'', ''bind_password'') = Some bp"
    "get_ldap_connection e bu bp = (Inr conn, pre)"
    "conf e (''ldap'', ''user_filter'') = Some uf"
    "conf e (''ldap'', ''user_name_attr'') = Some ua"
    "conf e (''ldap'', ''basedn'') = Some bd"
    "req = \<lparr>search_base = bd,
                 search_filter = ''(&('' @ uf @ '')('' @ ua @ ''='' @ u @ ''))'',
                 search_scope = Some (if conf e (''ldap'', ''search_scope'') = Some ''SUBTREE''
                                      then SUBTREE else LEVEL),
                 req_attributes = None\<rparr>"
    by blast+
  from h have s: "indicator (conn_search e conn req)"
    "response (conn_search e conn req) = item # items" "dn item = Some d"
    by blast+
  have "try_login e u p =
      (map_sum id (\<lambda>_. ()) (fst (get_ldap_connection e d p)),
       pre @ [Search conn req, Unbind conn] @ snd (get_ldap_connection e d p))"
    unfolding try_login_after_bind [OF c] using s by simp
  with g show "fst (try_login e u p) = Inl (AuthenticationError ''Cannot bind to ldap server'')"
    by simp
qed

theorem password_incorrect_branch_unreachable_witness:
  "conn_bind example_env service_connection
   \<and> connection_truthy service_connection
   \<and> Log INFO (PasswordIncorrect ''bob'') \<notin> set (snd (try_login example_env ''bob'' ''wrong''))
   \<and> fst (get_ldap_connection example_env ''uid=bob,dc=example,dc=com'' ''wrong'') =
       Inl (AuthenticationError ''Cannot bind to ldap server'')
   \<and> fst (try_login example_env ''bob'' ''wrong'') =
       Inl (AuthenticationError ''Cannot bind to ldap server'')"
proof -
  have c: "conf example_env (''ldap'', ''bind_user'') = Some ''cn=Manager,dc=example,dc=com''"
    "conf example_env (''ldap'', ''bind_password'') = Some ''insecure''"
    "get_ldap_connection example_env ''cn=Manager,dc=example,dc=com'' ''insecure'' =
       (Inr service_connection,
        [SetConfigParameter ''IGNORE_MALFORMED_SCHEMA'' ''False'', Bind service_connection])"
    "conf example_env (''ldap'', ''user_filter'') = Some ''objectClass=*''"
    "conf example_env (''ldap'', ''user_name_attr'') = Some ''uid''"
    "conf example_env (''ldap'', ''basedn'') = Some ''dc=example,dc=com''"
    by (simp_all add: get_ldap_connection_def ex_defs run_defs)
  let ?req = "\<lparr>search_base = ''dc=example,dc=com'',
                 search_filter = ''(&('' @ ''objectClass=*'' @ '')('' @ ''uid'' @ ''='' @ ''bob'' @ ''))'',
                 search_scope = Some (if conf example_env (''ldap'', ''search_scope'') = Some ''SUBTREE''
                                      then SUBTREE else LEVEL),
                 req_attributes = None\<rparr>"
  let ?item = "\<lparr>dn = Some ''uid=bob,dc=example,dc=com'',
          attributes = Some (\<lambda>a. if a = ''memberOf'' then Some [''cn=Admins,ou=Groups,dc=example,dc=com'', ''CN=Ops,ou=Groups,dc=example,dc=com''] else None)\<rparr>"
  have s: "indicator (conn_search example_env service_connection ?req)"
    "response (conn_search example_env service_connection ?req) = ?item # []"
    "dn ?item = Some ''uid=bob,dc=example,dc=com''"
    "\<not> conn_bind example_env
        (service_connection\<lparr>conn_user := ''uid=bob,dc=example,dc=com'', conn_password := ''wrong''\<rparr>)"
    by (simp_all add: ex_defs)
  have f: "fst (get_ldap_connection example_env ''cn=Manager,dc=example,dc=com'' ''insecure'') =
      Inr service_connection"
    using c(3) by simp
  note t = password_incorrect_branch_unreachable [where e = example_env
      and d = "''uid=bob,dc=example,dc=com''" and p = "''wrong''" and u = "''bob''"
      and bu = "''cn=Manager,dc=example,dc=com''" and bp = "''insecure''"
      and conn = service_connection
      and pre = "[SetConfigParameter ''IGNORE_MALFORMED_SCHEMA'' ''False'', Bind service_connection]"
      and uf = "''objectClass=*''" and ua = "''uid''" and bd = "''dc=example,dc=com''"
      and req = ?req and item = ?item and items = "[]"]
  from t have 2: "Log INFO (PasswordIncorrect ''bob'') \<notin> set (snd (try_login example_env ''bob'' ''wrong''))"
    by blast
  from t c s have 3: "fst (get_ldap_connection example_env ''uid=bob,dc=example,dc=com'' ''wrong'') =
       Inl (AuthenticationError ''Cannot bind to ldap server'')
     \<and> fst (try_login example_env ''bob'' ''wrong'') =
       Inl (AuthenticationError ''Cannot bind to ldap server'')"
    by blast
  from password_incorrect_branch_unreachable [where e = example_env
      and d = "''cn=Manager,dc=example,dc=com''" and p = "''insecure''" and c = service_connection] f
  have 1: "conn_bind example_env service_connection \<and> connection_truthy service_connection"
    by blast
  from 1 2 3 show ?thesis by blast
qed

text \<open>
  Claim C2 at its failing input: bob is found and the bind with his DN and a wrong password
  is refused; in the second run the bind of the service account is refused. Both runs raise
  the same exception.
\<close>

theorem try_login_bind_failures_coincide:
  "try_login example_env ''bob'' ''wrong'' =
     (Inl (AuthenticationError ''Cannot bind to ldap server''),
      [SetConfigParameter ''IGNORE_MALFORMED_SCHEMA'' ''False'', Bind service_connection,
       Search service_connection
         \<lparr>search_base = ''dc=example,dc=com'', search_filter = ''(&(objectClass=*)(uid=bob))'',
          search_scope = Some LEVEL, req_attributes = None\<rparr>,
       Unbind service_connection,
       SetConfigParameter ''IGNORE_MALFORMED_SCHEMA'' ''False'',
       Bind (example_connection ''uid=bob,dc=example,dc=com'' ''wrong''),
       Log ERROR (CannotBind ''invalidCredentials'')])
   \<and> try_login (example_env\<lparr>conf := example_conf((''ldap'', ''bind_password'') \<mapsto> ''stale'')\<rparr>)
         ''bob'' ''correct'' =
     (Inl (AuthenticationError ''Cannot bind to ldap server''),
      [SetConfigParameter ''IGNORE_MALFORMED_SCHEMA'' ''False'',
       Bind (example_connection ''cn=Manager,dc=example,dc=com'' ''stale''),
       Log ERROR (CannotBind ''invalidCredentials'')])
   \<and> fst (try_login example_env ''bob'' ''wrong'') =
     fst (try_login (example_env\<lparr>conf := example_conf((''ldap'', ''bind_password'') \<mapsto> ''stale'')\<rparr>)
         ''bob'' ''correct'')"
  by (simp add: try_login_def get_ldap_connection_def connection_truthy_def ex_defs run_defs)

subsection \<open>Construction of an \<open>LdapUser\<close>\<close>

lemma fst_bnd:
  "fst (bnd m f) = (case fst m of Inl err \<Rightarrow> Inl err | Inr x \<Rightarrow> fst (f x))"
proof -
  obtain r evs where m: "m = (r, evs)" by (cases m)
  show ?thesis unfolding m by (cases r) simp_all
qed

lemma fst_bnd_Inr:
  "fst (bnd m f) = Inr y \<longleftrightarrow> (\<exists>x. fst m = Inr x \<and> fst (f x) = Inr y)"
  by (simp add: fst_bnd split: sum.splits)

lemma fst_conf_get_Inr:
  "fst (conf_get e s k) = Inr v \<longleftrightarrow> conf e (s, k) = Some v"
  by (simp add: conf_get_def split: option.splits)

lemma superuser_block_skipped:
  "conf e (''ldap'', ''superuser_filter'') = None \<or> conf e (''ldap'', ''superuser_filter'') = Some [] \<Longrightarrow>
   superuser_block e conn u = (Inr True, [Log DEBUG MissingSuperuserSettings])"
  by (auto simp: superuser_block_def)

lemma data_profiler_block_skipped:
  "conf e (''ldap'', ''data_profiler_filter'') = None \<or> conf e (''ldap'', ''data_profiler_filter'') = Some [] \<Longrightarrow>
   data_profiler_block e conn u = (Inr True, [Log DEBUG MissingDataProfilerSettings])"
  by (auto simp: data_profiler_block_def)

lemma superuser_block_filter:
  "conf e (''ldap'', ''superuser_filter'') = Some f \<Longrightarrow> f \<noteq> [] \<Longrightarrow>
   conf e (''ldap'', ''basedn'') = Some bd \<Longrightarrow> conf e (''ldap'', ''user_name_attr'') = Some ua \<Longrightarrow>
   superuser_block e conn u = group_contains_user e conn bd f ua (username u)"
  by (simp add: superuser_block_def run_defs)

lemma LdapUser_init_Inr:
  "fst (LdapUser_init e u) = Inr lu \<longleftrightarrow>
     (\<exists>bu bp conn su dp gs.
        conf e (''ldap'', ''bind_user'') = Some bu \<and> conf e (''ldap'', ''bind_password'') = Some bp
        \<and> fst (get_ldap_connection e bu bp) = Inr conn
        \<and> fst (superuser_block e conn u) = Inr su
        \<and> fst (data_profiler_block e conn u) = Inr dp
        \<and> fst (ldap_groups_block e conn u) = Inr gs
        \<and> lu = \<lparr>user = u, ldap_groups = gs, superuser = su, data_profiler = dp\<rparr>)"
  unfolding LdapUser_init_def fst_bnd_Inr fst_conf_get_Inr by auto

lemma LdapUser_init_after_bind:
  assumes "conf e (''ldap'', ''bind_user'') = Some bu"
    and "conf e (''ldap'', ''bind_password'') = Some bp"
    and "fst (get_ldap_connection e bu bp) = Inr conn"
  shows "fst (LdapUser_init e u) =
    (case fst (superuser_block e conn u) of Inl err \<Rightarrow> Inl err | Inr su \<Rightarrow>
     case fst (data_profiler_block e conn u) of Inl err \<Rightarrow> Inl err | Inr dp \<Rightarrow>
     case fst (ldap_groups_block e conn u) of Inl err \<Rightarrow> Inl err | Inr gs \<Rightarrow>
       Inr \<lparr>user = u, ldap_groups = gs, superuser = su, data_profiler = dp\<rparr>)"
  using assms unfolding LdapUser_init_def
  by (simp add: fst_bnd conf_get_def split: sum.splits)

lemma groups_user_no_config_error:
  "fst (groups_user e conn bd uf ua u) \<noteq> Inl (AirflowConfigException s k)"
proof -
  have c: "\<And>vals. groups_comprehension vals \<noteq> Inl (AirflowConfigException s k)"
    using groups_comprehension_error by blast
  show ?thesis
    unfolding groups_user_def Let_def
    by (auto simp: fst_bnd run_defs c split: sum.splits option.splits list.splits error.splits if_splits)
qed

lemma ldap_groups_block_cases:
  "(conf e (''ldap'', ''basedn'') = None \<or> conf e (''ldap'', ''user_filter'') = None
      \<or> conf e (''ldap'', ''user_name_attr'') = None \<longrightarrow>
      ldap_groups_block e conn u = (Inr [], [Log DEBUG MissingLdapSettings]))
   \<and> (conf e (''ldap'', ''basedn'') = Some bd \<and> conf e (''ldap'', ''user_filter'') = Some uf
      \<and> conf e (''ldap'', ''user_name_attr'') = Some ua \<longrightarrow>
      ldap_groups_block e conn u = groups_user e conn bd uf ua (username u))"
proof (intro conjI impI)
  assume "conf e (''ldap'', ''basedn'') = None \<or> conf e (''ldap'', ''user_filter'') = None
      \<or> conf e (''ldap'', ''user_name_attr'') = None"
  then show "ldap_groups_block e conn u = (Inr [], [Log DEBUG MissingLdapSettings])"
    unfolding ldap_groups_block_def
    by (auto simp: conf_get_def throw_def split: option.splits)
next
  assume a: "conf e (''ldap'', ''basedn'') = Some bd \<and> conf e (''ldap'', ''user_filter'') = Some uf
      \<and> conf e (''ldap'', ''user_name_attr'') = Some ua"
  obtain r evs where g: "groups_user e conn bd uf ua (username u) = (r, evs)"
    by (cases "groups_user e conn bd uf ua (username u)")
  with groups_user_no_config_error [of e conn bd uf ua "username u"]
  have n: "\<And>s k. r \<noteq> Inl (AirflowConfigException s k)" by simp
  from a g n show "ldap_groups_block e conn u = groups_user e conn bd uf ua (username u)"
    unfolding ldap_groups_block_def
    by (cases r) (auto simp: conf_get_def split: error.splits)
qed

lemma get_ldap_connection_config_error:
  "fst (get_ldap_connection e d p) = Inl (AirflowConfigException s k) \<Longrightarrow>
   k = ''search_scope'' \<or> k = ''uri''"
  unfolding get_ldap_connection_def
  by (auto simp: run_defs split: option.splits if_splits)

lemma group_contains_user_no_config_error:
  "fst (group_contains_user e conn bd f ua u) \<noteq> Inl (AirflowConfigException s k)"
proof
  assume a: "fst (group_contains_user e conn bd f ua u) = Inl (AirflowConfigException s k)"
  then obtain ens where "entries_loop ua u ens = Inl (AirflowConfigException s k)"
    unfolding fst_group_contains_user by (auto split: if_splits)
  from entries_loop_error [OF this] show False by simp
qed

lemma superuser_block_config_error:
  "fst (superuser_block e conn u) = Inl (AirflowConfigException s k) \<Longrightarrow>
   k = ''basedn'' \<or> k = ''user_name_attr''"
  unfolding superuser_block_def
  by (auto simp: conf_get_def group_contains_user_no_config_error split: option.splits if_splits)

lemma data_profiler_block_config_error:
  "fst (data_profiler_block e conn u) = Inl (AirflowConfigException s k) \<Longrightarrow>
   k = ''basedn'' \<or> k = ''user_name_attr''"
  unfolding data_profiler_block_def
  by (auto simp: conf_get_def group_contains_user_no_config_error split: option.splits if_splits)

lemma ldap_groups_block_no_config_error:
  "fst (ldap_groups_block e conn u) \<noteq> Inl (AirflowConfigException s k)"
proof (cases "conf e (''ldap'', ''basedn'') = None \<or> conf e (''ldap'', ''user_filter'') = None
      \<or> conf e (''ldap'', ''user_name_attr'') = None")
  case True
  with ldap_groups_block_cases [of e conn u] show ?thesis by simp
next
  case False
  then obtain bd uf ua where "conf e (''ldap'', ''basedn'') = Some bd \<and>
      conf e (''ldap'', ''user_filter'') = Some uf \<and> conf e (''ldap'', ''user_name_attr'') = Some ua"
    by auto
  with ldap_groups_block_cases [of e conn u bd uf ua]
  have "ldap_groups_block e conn u = groups_user e conn bd uf ua (username u)" by blast
  then show ?thesis by (simp add: groups_user_no_config_error)
qed

lemma LdapUser_init_config_error:
  assumes "fst (LdapUser_init e u) = Inl (AirflowConfigException s k)"
  shows "k \<in> {''bind_user'', ''bind_password'', ''search_scope'', ''uri'', ''basedn'', ''user_name_attr''}"
proof (cases "conf e (''ldap'', ''bind_user'')")
  case None
  with assms show ?thesis by (simp add: LdapUser_init_def conf_get_def)
next
  case (Some bu)
  note bu = this
  show ?thesis
  proof (cases "conf e (''ldap'', ''bind_password'')")
    case None
    with assms bu show ?thesis by (simp add: LdapUser_init_def conf_get_def)
  next
    case (Some bp)
    note bp = this
    show ?thesis
    proof (cases "fst (get_ldap_connection e bu bp)")
      case (Inl err)
      with assms bu bp have "err = AirflowConfigException s k"
        by (simp add: LdapUser_init_def conf_get_def fst_bnd)
      with Inl get_ldap_connection_config_error [of e bu bp s k] show ?thesis by auto
    next
      case (Inr conn)
      from assms show ?thesis
        unfolding LdapUser_init_after_bind [OF bu bp Inr]
        using superuser_block_config_error [of e conn u s k]
          data_profiler_block_config_error [of e conn u s k]
          ldap_groups_block_no_config_error [of e conn u s k]
        by (auto split: sum.splits)
    qed
  qed
qed

lemma conf_get_conf_update:
  "k' \<noteq> k \<Longrightarrow> conf_get (e\<lparr>conf := (conf e)((''ldap'', k) := v)\<rparr>) ''ldap'' k' = conf_get e ''ldap'' k'"
  by (simp add: conf_get_def)

lemma get_ldap_connection_conf_update:
  "k \<noteq> ''cacert'' \<Longrightarrow> k \<noteq> ''ignore_malformed_schema'' \<Longrightarrow> k \<noteq> ''search_scope'' \<Longrightarrow> k \<noteq> ''uri'' \<Longrightarrow>
   get_ldap_connection (e\<lparr>conf := (conf e)((''ldap'', k) := v)\<rparr>) d p = get_ldap_connection e d p"
  by (simp add: get_ldap_connection_def conf_get_def cong: if_cong)

lemma group_contains_user_conf_update:
  "group_contains_user (e\<lparr>conf := c\<rparr>) conn bd f ua u = group_contains_user e conn bd f ua u"
  by (simp add: group_contains_user_def cong: if_cong)

lemma groups_user_conf_update:
  "k \<noteq> ''group_member_attr'' \<Longrightarrow>
   groups_user (e\<lparr>conf := (conf e)((''ldap'', k) := v)\<rparr>) conn bd uf ua u = groups_user e conn bd uf ua u"
  by (simp add: groups_user_def cong: if_cong)

lemma superuser_block_conf_update:
  "k \<noteq> ''superuser_filter'' \<Longrightarrow> k \<noteq> ''basedn'' \<Longrightarrow> k \<noteq> ''user_name_attr'' \<Longrightarrow>
   superuser_block (e\<lparr>conf := (conf e)((''ldap'', k) := v)\<rparr>) conn u = superuser_block e conn u"
  by (simp add: superuser_block_def conf_get_conf_update group_contains_user_conf_update
      cong: if_cong option.case_cong)

lemma data_profiler_block_conf_update:
  "k \<noteq> ''data_profiler_filter'' \<Longrightarrow> k \<noteq> ''basedn'' \<Longrightarrow> k \<noteq> ''user_name_attr'' \<Longrightarrow>
   data_profiler_block (e\<lparr>conf := (conf e)((''ldap'', k) := v)\<rparr>) conn u = data_profiler_block e conn u"
  by (simp add: data_profiler_block_def conf_get_conf_update group_contains_user_conf_update
      cong: if_cong option.case_cong)

lemma ldap_groups_block_conf_update:
  "k \<noteq> ''basedn'' \<Longrightarrow> k \<noteq> ''user_filter'' \<Longrightarrow> k \<noteq> ''user_name_attr'' \<Longrightarrow> k \<noteq> ''group_member_attr'' \<Longrightarrow>
   ldap_groups_block (e\<lparr>conf := (conf e)((''ldap'', k) := v)\<rparr>) conn u = ldap_groups_block e conn u"
  by (simp add: ldap_groups_block_def conf_get_conf_update groups_user_conf_update cong: if_cong)

lemma LdapUser_init_superuser_absent_or_empty:
  "LdapUser_init (e\<lparr>conf := (conf e)((''ldap'', ''superuser_filter'') := None)\<rparr>) u =
   LdapUser_init (e\<lparr>conf := (conf e)((''ldap'', ''superuser_filter'') \<mapsto> [])\<rparr>) u"
  unfolding LdapUser_init_def
  by (simp add: conf_get_conf_update get_ldap_connection_conf_update superuser_block_skipped
      data_profiler_block_conf_update ldap_groups_block_conf_update)

lemma LdapUser_init_data_profiler_absent_or_empty:
  "LdapUser_init (e\<lparr>conf := (conf e)((''ldap'', ''data_profiler_filter'') := None)\<rparr>) u =
   LdapUser_init (e\<lparr>conf := (conf e)((''ldap'', ''data_profiler_filter'') \<mapsto> [])\<rparr>) u"
  unfolding LdapUser_init_def
  by (simp add: conf_get_conf_update get_ldap_connection_conf_update data_profiler_block_skipped
      superuser_block_conf_update ldap_groups_block_conf_update)

lemmas init_defs = LdapUser_init_def superuser_block_def data_profiler_block_def
  ldap_groups_block_def get_ldap_connection_def group_contains_user_def groups_user_def

lemma data_profiling_absent_or_empty:
  assumes "fst (LdapUser_init e u) = Inr self"
    and "conf e (''ldap'', ''data_profiler_filter'') = None
           \<or> conf e (''ldap'', ''data_profiler_filter'') = Some []"
  shows "data_profiling self"
proof -
  from assms(1) obtain conn su dp gs where
    h: "fst (data_profiler_block e conn u) = Inr dp"
       "self = \<lparr>user = u, ldap_groups = gs, superuser = su, data_profiler = dp\<rparr>"
    unfolding LdapUser_init_Inr by blast
  from data_profiler_block_skipped [OF assms(2), of conn u] h(1) have "dp" by simp
  with h(2) show ?thesis by (simp add: data_profiling_def)
qed

lemma is_superuser_absent_or_empty:
  assumes "fst (LdapUser_init e u) = Inr self"
    and "conf e (''ldap'', ''superuser_filter'') = None
           \<or> conf e (''ldap'', ''superuser_filter'') = Some []"
  shows "is_superuser self"
proof -
  from assms(1) obtain conn su dp gs where
    h: "fst (superuser_block e conn u) = Inr su"
       "self = \<lparr>user = u, ldap_groups = gs, superuser = su, data_profiler = dp\<rparr>"
    unfolding LdapUser_init_Inr by blast
  from superuser_block_skipped [OF assms(2), of conn u] h(1) have "su" by simp
  with h(2) show ?thesis by (simp add: is_superuser_def)
qed

text \<open>
  Claim C10. With the service connection bound and both flags resolved: when one of
  \<open>basedn\<close>, \<open>user_filter\<close>, \<open>user_name_attr\<close> is missing, the
  \<open>AirflowConfigException\<close> is caught and the user is constructed with an empty group
  list; when the three keys are present nothing is caught, so every exception of
  \<open>groups_user\<close> leaves the constructor, and in particular a false search indicator makes
  the constructor raise \<open>AuthenticationError\<close> with the text
  \<open>Invalid username or password\<close>.
\<close>

theorem ldap_groups_block_catches_config_errors_only:
  assumes "conf e (''ldap'', ''bind_user'') = Some bu"
    and "conf e (''ldap'', ''bind_password'') = Some bp"
    and "fst (get_ldap_connection e bu bp) = Inr conn"
    and "fst (superuser_block e conn u) = Inr su"
    and "fst (data_profiler_block e conn u) = Inr dp"
  shows "(conf e (''ldap'', ''basedn'') = None \<or> conf e (''ldap'', ''user_filter'') = None
            \<or> conf e (''ldap'', ''user_name_attr'') = None \<longrightarrow>
          ldap_groups_block e conn u = (Inr [], [Log DEBUG MissingLdapSettings])
          \<and> fst (LdapUser_init e u) =
              Inr \<lparr>user = u, ldap_groups = [], superuser = su, data_profiler = dp\<rparr>)
       \<and> (conf e (''ldap'', ''basedn'') = Some bd \<and> conf e (''ldap'', ''user_filter'') = Some uf
            \<and> conf e (''ldap'', ''user_name_attr'') = Some ua \<longrightarrow>
          ldap_groups_block e conn u = groups_user e conn bd uf ua (username u)
          \<and> (fst (groups_user e conn bd uf ua (username u)) = Inl err \<longrightarrow>
               fst (LdapUser_init e u) = Inl err)
          \<and> (\<not> indicator (conn_search e conn
                 \<lparr>search_base = bd,
                  search_filter = ''(&('' @ uf @ '')('' @ ua @ ''='' @ username u @ ''))'',
                  search_scope = None,
                  req_attributes = Some [case conf e (''ldap'', ''group_member_attr'') of
                                           None \<Rightarrow> ''memberOf'' | Some a \<Rightarrow> a]\<rparr>) \<longrightarrow>
               fst (LdapUser_init e u) =
                 Inl (AuthenticationError ''Invalid username or password'')))"
proof (intro conjI impI)
  note i = LdapUser_init_after_bind [OF assms(1-3), of u]
  {
    assume m: "conf e (''ldap'', ''basedn'') = None \<or> conf e (''ldap'', ''user_filter'') = None
            \<or> conf e (''ldap'', ''user_name_attr'') = None"
    with ldap_groups_block_cases [of e conn u]
    show b: "ldap_groups_block e conn u = (Inr [], [Log DEBUG MissingLdapSettings])" by blast
    show "fst (LdapUser_init e u) =
              Inr \<lparr>user = u, ldap_groups = [], superuser = su, data_profiler = dp\<rparr>"
      unfolding i using assms(4,5) b by simp
  }
  {
    assume p: "conf e (''ldap'', ''basedn'') = Some bd \<and> conf e (''ldap'', ''user_filter'') = Some uf
            \<and> conf e (''ldap'', ''user_name_attr'') = Some ua"
    with ldap_groups_block_cases [of e conn u bd uf ua]
    show b: "ldap_groups_block e conn u = groups_user e conn bd uf ua (username u)" by blast
    {
      assume "fst (groups_user e conn bd uf ua (username u)) = Inl err"
      then show "fst (LdapUser_init e u) = Inl err"
        unfolding i using assms(4,5) b by simp
    }
    {
      assume "\<not> indicator (conn_search e conn
                 \<lparr>search_base = bd,
                  search_filter = ''(&('' @ uf @ '')('' @ ua @ ''='' @ username u @ ''))'',
                  search_scope = None,
                  req_attributes = Some [case conf e (''ldap'', ''group_member_attr'') of
                                           None \<Rightarrow> ''memberOf'' | Some a \<Rightarrow> a]\<rparr>)"
      with groups_user_authentication_error_iff [OF refl refl, of e conn bd uf ua "username u"
          "''Invalid username or password''"]
      have "fst (groups_user e conn bd uf ua (username u)) =
          Inl (AuthenticationError ''Invalid username or password'')" by simp
      then show "fst (LdapUser_init e u) =
                 Inl (AuthenticationError ''Invalid username or password'')"
        unfolding i using assms(4,5) b by simp
    }
  }
qed

theorem ldap_groups_block_catches_config_errors_only_witness:
  "fst (LdapUser_init (example_env\<lparr>conf := example_conf((''ldap'', ''user_filter'') := None)\<rparr>)
          \<lparr>user_id = ''1'', username = ''bob''\<rparr>) =
     Inr \<lparr>user = \<lparr>user_id = ''1'', username = ''bob''\<rparr>, ldap_groups = [],
          superuser = True, data_profiler = True\<rparr>
   \<and> fst (LdapUser_init example_env \<lparr>user_id = ''7'', username = ''zed''\<rparr>) =
     Inl (AuthenticationError ''Invalid username or password'')"
proof -
  let ?e = "example_env\<lparr>conf := example_conf((''ldap'', ''user_filter'') := None)\<rparr>"
  let ?bob = "\<lparr>user_id = ''1'', username = ''bob''\<rparr>"
  let ?zed = "\<lparr>user_id = ''7'', username = ''zed''\<rparr>"
  have a: "conf ?e (''ldap'', ''bind_user'') = Some ''cn=Manager,dc=example,dc=com''"
    "conf ?e (''ldap'', ''bind_password'') = Some ''insecure''"
    "fst (get_ldap_connection ?e ''cn=Manager,dc=example,dc=com'' ''insecure'') = Inr service_connection"
    "fst (superuser_block ?e service_connection ?bob) = Inr True"
    "fst (data_profiler_block ?e service_connection ?bob) = Inr True"
    by (simp_all add: init_defs ex_defs run_defs)
  have m: "conf ?e (''ldap'', ''basedn'') = None \<or> conf ?e (''ldap'', ''user_filter'') = None
            \<or> conf ?e (''ldap'', ''user_name_attr'') = None"
    by (simp add: ex_defs)
  from ldap_groups_block_catches_config_errors_only [OF a] m
  have 1: "fst (LdapUser_init ?e ?bob) =
     Inr \<lparr>user = ?bob, ldap_groups = [], superuser = True, data_profiler = True\<rparr>"
    by blast
  have b: "conf example_env (''ldap'', ''bind_user'') = Some ''cn=Manager,dc=example,dc=com''"
    "conf example_env (''ldap'', ''bind_password'') = Some ''insecure''"
    "fst (get_ldap_connection example_env ''cn=Manager,dc=example,dc=com'' ''insecure'') = Inr service_connection"
    "fst (superuser_block example_env service_connection ?zed) = Inr True"
    "fst (data_profiler_block example_env service_connection ?zed) = Inr True"
    by (simp_all add: init_defs ex_defs run_defs)
  have p: "conf example_env (''ldap'', ''basedn'') = Some ''dc=example,dc=com''
      \<and> conf example_env (''ldap'', ''user_filter'') = Some ''objectClass=*''
      \<and> conf example_env (''ldap'', ''user_name_attr'') = Some ''uid''"
    by (simp add: ex_defs)
  have n: "\<not> indicator (conn_search example_env service_connection
                 \<lparr>search_base = ''dc=example,dc=com'',
                  search_filter = ''(&('' @ ''objectClass=*'' @ '')('' @ ''uid'' @ ''='' @ username ?zed @ ''))'',
                  search_scope = None,
                  req_attributes = Some [case conf example_env (''ldap'', ''group_member_attr'') of
                                           None \<Rightarrow> ''memberOf'' | Some a \<Rightarrow> a]\<rparr>)"
    by (simp add: ex_defs)
  from ldap_groups_block_catches_config_errors_only [OF b, where bd = "''dc=example,dc=com''"
      and uf = "''objectClass=*''" and ua = "''uid''"] p n
  have 2: "fst (LdapUser_init example_env ?zed) =
     Inl (AuthenticationError ''Invalid username or password'')"
    by blast
  from 1 2 show ?thesis by blast
qed

text \<open>
  Claim C4 (as amended). For a constructed user: if \<open>superuser_filter\<close> is unset or
  empty, \<open>is_superuser\<close> is true; if it is set to a non-empty value and
  \<open>group_contains_user\<close> with that filter returns false, \<open>is_superuser\<close> is false.
\<close>

theorem is_superuser_filter_rule:
  assumes "fst (LdapUser_init e u) = Inr self"
  shows "(conf e (''ldap'', ''superuser_filter'') = None
            \<or> conf e (''ldap'', ''superuser_filter'') = Some [] \<longrightarrow> is_superuser self)
       \<and> (conf e (''ldap'', ''superuser_filter'') = Some f \<and> f \<noteq> []
          \<and> conf e (''ldap'', ''bind_user'') = Some bu
          \<and> conf e (''ldap'', ''bind_password'') = Some bp
          \<and> fst (get_ldap_connection e bu bp) = Inr conn
          \<and> conf e (''ldap'', ''basedn'') = Some bd
          \<and> conf e (''ldap'', ''user_name_attr'') = Some ua
          \<and> fst (group_contains_user e conn bd f ua (username u)) = Inr False
          \<longrightarrow> \<not> is_superuser self)"
proof -
  from assms obtain bu' bp' conn' su dp gs where
    h: "conf e (''ldap'', ''bind_user'') = Some bu'" "conf e (''ldap'', ''bind_password'') = Some bp'"
       "fst (get_ldap_connection e bu' bp') = Inr conn'"
       "fst (superuser_block e conn' u) = Inr su"
       "self = \<lparr>user = u, ldap_groups = gs, superuser = su, data_profiler = dp\<rparr>"
    unfolding LdapUser_init_Inr by blast
  have 1: "conf e (''ldap'', ''superuser_filter'') = None
            \<or> conf e (''ldap'', ''superuser_filter'') = Some [] \<longrightarrow> is_superuser self"
  proof
    assume "conf e (''ldap'', ''superuser_filter'') = None
            \<or> conf e (''ldap'', ''superuser_filter'') = Some []"
    from superuser_block_skipped [OF this, of conn' u] h(4) have "su" by simp
    with h(5) show "is_superuser self" by (simp add: is_superuser_def)
  qed
  have 2: "conf e (''ldap'', ''superuser_filter'') = Some f \<and> f \<noteq> []
          \<and> conf e (''ldap'', ''bind_user'') = Some bu
          \<and> conf e (''ldap'', ''bind_password'') = Some bp
          \<and> fst (get_ldap_connection e bu bp) = Inr conn
          \<and> conf e (''ldap'', ''basedn'') = Some bd
          \<and> conf e (''ldap'', ''user_name_attr'') = Some ua
          \<and> fst (group_contains_user e conn bd f ua (username u)) = Inr False
          \<longrightarrow> \<not> is_superuser self"
  proof
    assume a: "conf e (''ldap'', ''superuser_filter'') = Some f \<and> f \<noteq> []
          \<and> conf e (''ldap'', ''bind_user'') = Some bu
          \<and> conf e (''ldap'', ''bind_password'') = Some bp
          \<and> fst (get_ldap_connection e bu bp) = Inr conn
          \<and> conf e (''ldap'', ''basedn'') = Some bd
          \<and> conf e (''ldap'', ''user_name_attr'') = Some ua
          \<and> fst (group_contains_user e conn bd f ua (username u)) = Inr False"
    with h(1-3) have c: "conn' = conn" by simp
    from a have "superuser_block e conn u = group_contains_user e conn bd f ua (username u)"
      by (simp add: superuser_block_filter)
    with a h(4) c have "su = False" by simp
    with h(5) show "\<not> is_superuser self" by (simp add: is_superuser_def)
  qed
  from 1 2 show ?thesis by blast
qed

theorem is_superuser_filter_rule_witness:
  "map_sum id is_superuser (fst (LdapUser_init example_env \<lparr>user_id = ''1'', username = ''bob''\<rparr>)) = Inr True
   \<and> map_sum id is_superuser
        (fst (LdapUser_init (example_env\<lparr>conf := example_conf((''ldap'', ''superuser_filter'') \<mapsto> ''cn=admins'')\<rparr>)
           \<lparr>user_id = ''5'', username = ''erin''\<rparr>)) = Inr False"
proof -
  let ?e = "example_env\<lparr>conf := example_conf((''ldap'', ''superuser_filter'') \<mapsto> ''cn=admins'')\<rparr>"
  let ?bob = "\<lparr>user_id = ''1'', username = ''bob''\<rparr>"
  let ?erin = "\<lparr>user_id = ''5'', username = ''erin''\<rparr>"
  have b: "fst (LdapUser_init example_env ?bob) =
      Inr \<lparr>user = ?bob, ldap_groups = [''Admins'', ''Ops''], superuser = True, data_profiler = True\<rparr>"
    by (simp add: init_defs ex_defs run_defs)
  have n: "conf example_env (''ldap'', ''superuser_filter'') = None
            \<or> conf example_env (''ldap'', ''superuser_filter'') = Some []"
    by (simp add: ex_defs)
  from is_superuser_filter_rule [OF b] n
  have 1: "is_superuser \<lparr>user = ?bob, ldap_groups = [''Admins'', ''Ops''], superuser = True,
      data_profiler = True\<rparr>" by blast
  have e: "fst (LdapUser_init ?e ?erin) =
      Inr \<lparr>user = ?erin, ldap_groups = [], superuser = False, data_profiler = True\<rparr>"
    by (simp add: init_defs ex_defs run_defs lower_def lower_char_def upper_case_def lower_case_def)
  have s: "conf ?e (''ldap'', ''superuser_filter'') = Some ''cn=admins'' \<and> ''cn=admins'' \<noteq> []
          \<and> conf ?e (''ldap'', ''bind_user'') = Some ''cn=Manager,dc=example,dc=com''
          \<and> conf ?e (''ldap'', ''bind_password'') = Some ''insecure''
          \<and> fst (get_ldap_connection ?e ''cn=Manager,dc=example,dc=com'' ''insecure'') = Inr service_connection
          \<and> conf ?e (''ldap'', ''basedn'') = Some ''dc=example,dc=com''
          \<and> conf ?e (''ldap'', ''user_name_attr'') = Some ''uid''
          \<and> fst (group_contains_user ?e service_connection ''dc=example,dc=com'' ''cn=admins'' ''uid''
                (username ?erin)) = Inr False"
    by (simp add: init_defs ex_defs run_defs lower_def lower_char_def upper_case_def lower_case_def)
  from is_superuser_filter_rule [OF e, where f = "''cn=admins''"
      and bu = "''cn=Manager,dc=example,dc=com''" and bp = "''insecure''"
      and conn = service_connection and bd = "''dc=example,dc=com''" and ua = "''uid''"] s
  have 2: "\<not> is_superuser \<lparr>user = ?erin, ldap_groups = [], superuser = False, data_profiler = True\<rparr>"
    by blast
  from 1 2 show ?thesis unfolding b e by simp
qed

text \<open>
  Claim C4 as first stated fails for a filter that is set to the empty string:
  \<open>group_contains_user\<close> with that filter returns false, yet \<open>is_superuser\<close> is true,
  because \<open>not superuser_filter\<close> holds and the lookup is skipped.
\<close>

theorem is_superuser_empty_filter_counterexample:
  "conf (example_env\<lparr>conf := example_conf((''ldap'', ''superuser_filter'') \<mapsto> '''')\<rparr>)
     (''ldap'', ''superuser_filter'') = Some ''''
   \<and> fst (get_ldap_connection (example_env\<lparr>conf := example_conf((''ldap'', ''superuser_filter'') \<mapsto> '''')\<rparr>)
          ''cn=Manager,dc=example,dc=com'' ''insecure'') = Inr service_connection
   \<and> fst (group_contains_user (example_env\<lparr>conf := example_conf((''ldap'', ''superuser_filter'') \<mapsto> '''')\<rparr>)
          service_connection ''dc=example,dc=com'' '''' ''uid'' ''erin'') = Inr False
   \<and> map_sum id is_superuser
        (fst (LdapUser_init (example_env\<lparr>conf := example_conf((''ldap'', ''superuser_filter'') \<mapsto> '''')\<rparr>)
           \<lparr>user_id = ''5'', username = ''erin''\<rparr>)) = Inr True"
  by (simp add: init_defs is_superuser_def ex_defs run_defs)

text \<open>
  Claim C1 (as amended). For \<open>superuser_filter\<close> and \<open>data_profiler_filter\<close>: the
  constructor does the same whether the key is absent or present with the empty string; it
  never raises the \<open>AirflowConfigException\<close> of either key; and a user constructed with
  the key absent or empty has the flag set.
\<close>

theorem optional_filters_absent_or_empty:
  "LdapUser_init (e\<lparr>conf := (conf e)((''ldap'', ''superuser_filter'') := None)\<rparr>) u =
     LdapUser_init (e\<lparr>conf := (conf e)((''ldap'', ''superuser_filter'') \<mapsto> [])\<rparr>) u
   \<and> LdapUser_init (e\<lparr>conf := (conf e)((''ldap'', ''data_profiler_filter'') := None)\<rparr>) u =
     LdapUser_init (e\<lparr>conf := (conf e)((''ldap'', ''data_profiler_filter'') \<mapsto> [])\<rparr>) u
   \<and> fst (LdapUser_init e u) \<noteq> Inl (AirflowConfigException s ''superuser_filter'')
   \<and> fst (LdapUser_init e u) \<noteq> Inl (AirflowConfigException s ''data_profiler_filter'')
   \<and> (fst (LdapUser_init e u) = Inr self
        \<and> (conf e (''ldap'', ''superuser_filter'') = None
             \<or> conf e (''ldap'', ''superuser_filter'') = Some []) \<longrightarrow> is_superuser self)
   \<and> (fst (LdapUser_init e u) = Inr self
        \<and> (conf e (''ldap'', ''data_profiler_filter'') = None
             \<or> conf e (''ldap'', ''data_profiler_filter'') = Some []) \<longrightarrow> data_profiling self)"
proof (intro conjI impI)
  show "LdapUser_init (e\<lparr>conf := (conf e)((''ldap'', ''superuser_filter'') := None)\<rparr>) u =
     LdapUser_init (e\<lparr>conf := (conf e)((''ldap'', ''superuser_filter'') \<mapsto> [])\<rparr>) u"
    by (rule LdapUser_init_superuser_absent_or_empty)
  show "LdapUser_init (e\<lparr>conf := (conf e)((''ldap'', ''data_profiler_filter'') := None)\<rparr>) u =
     LdapUser_init (e\<lparr>conf := (conf e)((''ldap'', ''data_profiler_filter'') \<mapsto> [])\<rparr>) u"
    by (rule LdapUser_init_data_profiler_absent_or_empty)
  show "fst (LdapUser_init e u) \<noteq> Inl (AirflowConfigException s ''superuser_filter'')"
    using LdapUser_init_config_error [of e u s "''superuser_filter''"] by auto
  show "fst (LdapUser_init e u) \<noteq> Inl (AirflowConfigException s ''data_profiler_filter'')"
    using LdapUser_init_config_error [of e u s "''data_profiler_filter''"] by auto
next
  assume "fst (LdapUser_init e u) = Inr self
        \<and> (conf e (''ldap'', ''superuser_filter'') = None
             \<or> conf e (''ldap'', ''superuser_filter'') = Some [])"
  then show "is_superuser self" using is_superuser_absent_or_empty by blast
next
  assume "fst (LdapUser_init e u) = Inr self
        \<and> (conf e (''ldap'', ''data_profiler_filter'') = None
             \<or> conf e (''ldap'', ''data_profiler_filter'') = Some [])"
  then show "data_profiling self" using data_profiling_absent_or_empty by blast
qed

theorem optional_filters_absent_or_empty_witness:
  "map_sum id is_superuser (fst (LdapUser_init example_env \<lparr>user_id = ''1'', username = ''bob''\<rparr>)) = Inr True
   \<and> map_sum id data_profiling (fst (LdapUser_init example_env \<lparr>user_id = ''1'', username = ''bob''\<rparr>)) = Inr True"
proof -
  let ?bob = "\<lparr>user_id = ''1'', username = ''bob''\<rparr>"
  let ?self = "\<lparr>user = ?bob, ldap_groups = [''Admins'', ''Ops''], superuser = True, data_profiler = True\<rparr>"
  have b: "fst (LdapUser_init example_env ?bob) = Inr ?self"
    by (simp add: init_defs ex_defs run_defs)
  have n: "conf example_env (''ldap'', ''superuser_filter'') = None"
    "conf example_env (''ldap'', ''data_profiler_filter'') = None"
    by (simp_all add: ex_defs)
  from optional_filters_absent_or_empty [of example_env ?bob _ ?self] b n
  have "is_superuser ?self \<and> data_profiling ?self" by blast
  then show ?thesis unfolding b by simp
qed

text \<open>
  Claim C1 as first stated fails twice. With \<open>cacert\<close> absent, \<open>get_ldap_connection\<close>
  raises \<open>UnboundLocalError\<close> when it builds the \<open>Tls\<close> object, before any bind. And an
  absent \<open>superuser_filter\<close> is not told apart from an empty one: the constructor returns
  the same user and logs the same records.
\<close>

theorem optional_keys_counterexample:
  "get_ldap_connection (example_env\<lparr>conf := example_conf((''ldap'', ''cacert'') := None)\<rparr>)
       ''cn=Manager,dc=example,dc=com'' ''insecure'' =
     (Inl (UnboundLocalError ''cacert''), [SetConfigParameter ''IGNORE_MALFORMED_SCHEMA'' ''False''])
   \<and> conf example_env (''ldap'', ''superuser_filter'') = None
   \<and> LdapUser_init example_env \<lparr>user_id = ''1'', username = ''bob''\<rparr> =
     LdapUser_init (example_env\<lparr>conf := example_conf((''ldap'', ''superuser_filter'') \<mapsto> '''')\<rparr>)
       \<lparr>user_id = ''1'', username = ''bob''\<rparr>"
  by (simp add: init_defs ex_defs run_defs)

end
